theory Spec2Isabelle
  imports Main
begin

section \<open>The spreadsheet command engine of \<^verbatim>\<open>backend/src/services/spreadsheetService.ts\<close>\<close>

text \<open>
  The development embeds the command parser and the in-memory store of the backend
  service. Conventions of the embedding:
  \<^item> a JavaScript string is a list of 8-bit code units (\<^typ>\<open>string\<close>), which covers the
    Latin-1 range of the source's UTF-16 strings;
  \<^item> a JavaScript number that holds an integer is an \<^typ>\<open>int\<close>; the arithmetic here is
    exact, the runtime's is exact up to \<open>MAX_SAFE_INTEGER\<close> and rounds beyond it, so a
    statement about the numbers of every message carries that bound as a hypothesis;
  \<^item> a thrown \<^verbatim>\<open>CustomError\<close> is the left injection of a sum;
  \<^item> the fields \<^verbatim>\<open>id\<close> and \<^verbatim>\<open>timestamp\<close> of the events come from the clock and the
    random number generator and are left out of the event records, and so are the log
    lines and the WebSocket broadcast, which do not touch the store.
\<close>

subsection \<open>Characters and strings of the JavaScript runtime\<close>

definition charCode :: "char \<Rightarrow> int" where
  "charCode c = of_char c"

text \<open>The class \<^verbatim>\<open>\s\<close> of a regular expression, which is also what \<^verbatim>\<open>trim\<close> removes.\<close>

definition isSpace :: "char \<Rightarrow> bool" where
  "isSpace c \<longleftrightarrow> charCode c \<in> {9, 10, 11, 12, 13, 32, 160}"

text \<open>The dot of a regular expression matches anything but a line terminator.\<close>

definition isLineTerminator :: "char \<Rightarrow> bool" where
  "isLineTerminator c \<longleftrightarrow> charCode c = 10 \<or> charCode c = 13"

text \<open>The class \<^verbatim>\<open>[A-Z]\<close>, and the same class under the flag \<^verbatim>\<open>i\<close>.\<close>

definition isUpperAZ :: "char \<Rightarrow> bool" where
  "isUpperAZ c \<longleftrightarrow> 65 \<le> charCode c \<and> charCode c \<le> 90"

definition isLetterCI :: "char \<Rightarrow> bool" where
  "isLetterCI c \<longleftrightarrow> isUpperAZ c \<or> (97 \<le> charCode c \<and> charCode c \<le> 122)"

text \<open>The class \<^verbatim>\<open>\d\<close>.\<close>

definition isDigit :: "char \<Rightarrow> bool" where
  "isDigit c \<longleftrightarrow> 48 \<le> charCode c \<and> charCode c \<le> 57"

text \<open>
  \<^verbatim>\<open>String.prototype.toUpperCase\<close> on one code unit. The sharp s becomes two letters.
  The micro sign (181) and the y with diaeresis (255) have upper-case forms outside the
  8-bit range; they stand for themselves here, which none of the patterns below can tell
  apart, as neither form is a letter of \<^verbatim>\<open>[A-Z]\<close>, a digit or white space.
\<close>

definition upperChar :: "char \<Rightarrow> string" where
  "upperChar c =
     (let n = charCode c in
      if 97 \<le> n \<and> n \<le> 122 then [char_of (n - 32)]
      else if n = 223 then ''SS''
      else if 224 \<le> n \<and> n \<le> 254 \<and> n \<noteq> 247 then [char_of (n - 32)]
      else [c])"

definition toUpperCase :: "string \<Rightarrow> string" where
  "toUpperCase s = concat (map upperChar s)"

text \<open>The canonical form of a code unit when a pattern is matched ignoring case.\<close>

definition canonicalize :: "char \<Rightarrow> char" where
  "canonicalize c = (case upperChar c of [u] \<Rightarrow> u | _ \<Rightarrow> c)"

definition trim :: "string \<Rightarrow> string" where
  "trim s = rev (dropWhile isSpace (rev (dropWhile isSpace s)))"

text \<open>\<^verbatim>\<open>s.split(/\s+/)\<close>: the empty string splits into one empty part.\<close>

function splitLoop :: "string \<Rightarrow> string \<Rightarrow> string list" where
  "splitLoop cur [] = [rev cur]"
| "splitLoop cur (c # cs) =
     (if isSpace c then rev cur # splitLoop [] (dropWhile isSpace cs)
      else splitLoop (c # cur) cs)"
  by pat_completeness auto
termination
  by (relation "measure (\<lambda>(cur, s). length s)")
     (auto simp: length_dropWhile_le less_Suc_eq_le)

definition splitSpaces :: "string \<Rightarrow> string list" where
  "splitSpaces s = splitLoop [] s"

text \<open>\<^verbatim>\<open>parts.join(' ')\<close>.\<close>

fun joinSpace :: "string list \<Rightarrow> string" where
  "joinSpace [] = []"
| "joinSpace [p] = p"
| "joinSpace (p # q # ps) = p @ '' '' @ joinSpace (q # ps)"

text \<open>
  The two limits of the runtime that bound the numbers of a command:
  \<^verbatim>\<open>Number.MAX_SAFE_INTEGER\<close>, which is \<open>2^53 - 1\<close>, up to which every integer is a number
  of the runtime and sums and differences are exact, and the largest length of an array,
  \<open>2^32 - 1\<close>.
\<close>

definition MAX_SAFE_INTEGER :: int where
  "MAX_SAFE_INTEGER = 9007199254740991"

definition MAX_ARRAY_LENGTH :: int where
  "MAX_ARRAY_LENGTH = 4294967295"

text \<open>
  \<^verbatim>\<open>parseInt\<close> on a string of decimal digits: the integer that the digits denote. The
  runtime returns this integer when it is at most \<^const>\<open>MAX_SAFE_INTEGER\<close> and the nearest
  number it can represent otherwise (for the digits of \<open>2^53 + 1\<close> it returns \<open>2^53\<close>), so
  the value below is the runtime's only within that bound.
\<close>

fun parseIntLoop :: "string \<Rightarrow> int \<Rightarrow> int" where
  "parseIntLoop [] acc = acc"
| "parseIntLoop (c # cs) acc = parseIntLoop cs (acc * 10 + (charCode c - 48))"

definition parseInt :: "string \<Rightarrow> int" where
  "parseInt s = parseIntLoop s 0"

text \<open>The decimal rendering of an integer inside a template literal.\<close>

function natToString :: "nat \<Rightarrow> string" where
  "natToString n =
     (if n < 10 then [char_of (48 + n)] else natToString (n div 10) @ [char_of (48 + n mod 10)])"
  by pat_completeness auto
termination
  by (relation "measure id") auto

declare natToString.simps [simp del]

definition numberToString :: "int \<Rightarrow> string" where
  "numberToString i = (if i < 0 then CHR ''-'' # natToString (nat (- i)) else natToString (nat i))"

subsection \<open>Column codec\<close>

text \<open>
  \<^verbatim>\<open>columnIndexToLetter\<close>: the loop prepends one letter per round; \<open>result\<close> is the
  accumulator of the source.
\<close>

function columnIndexLoop :: "int \<Rightarrow> string \<Rightarrow> string" where
  "columnIndexLoop index result =
     (if index \<ge> 0
      then columnIndexLoop (index div 26 - 1) (char_of (65 + index mod 26) # result)
      else result)"
  by pat_completeness auto
termination
  by (relation "measure (\<lambda>(index, result). nat (index + 1))") auto

declare columnIndexLoop.simps [simp del]

definition columnIndexToLetter :: "int \<Rightarrow> string" where
  "columnIndexToLetter index = columnIndexLoop index []"

text \<open>\<^verbatim>\<open>letterToColumnIndex\<close>: no check of the characters and no ceiling.\<close>

fun letterLoop :: "string \<Rightarrow> int \<Rightarrow> int" where
  "letterLoop [] result = result"
| "letterLoop (c # cs) result = letterLoop cs (result * 26 + (charCode c - 64))"

definition letterToColumnIndex :: "string \<Rightarrow> int" where
  "letterToColumnIndex letter = letterLoop letter 0 - 1"

text \<open>
  \<^verbatim>\<open>parseColumn\<close>: the checked variant, with the sentinel \<open>-1\<close> for a character outside
  \<^verbatim>\<open>A-Z\<close> and for a column beyond \<^verbatim>\<open>ZZ\<close>. No function of the service calls it.
\<close>

fun parseColumnLoop :: "string \<Rightarrow> int \<Rightarrow> int" where
  "parseColumnLoop [] result = (if result > 702 then - 1 else result - 1)"
| "parseColumnLoop (c # cs) result =
     (if charCode c < 65 \<or> charCode c > 90 then - 1
      else parseColumnLoop cs (result * 26 + (charCode c - 64)))"

definition parseColumn :: "string \<Rightarrow> int" where
  "parseColumn colStr = parseColumnLoop (toUpperCase colStr) 0"

text \<open>\<^verbatim>\<open>generateColumnHeaders\<close>.\<close>

definition generateColumnHeaders :: "int \<Rightarrow> string list" where
  "generateColumnHeaders count = map columnIndexToLetter [0 .. count - 1]"

subsection \<open>The three patterns of the parser\<close>

text \<open>
  Each pattern is matched the way the backtracking matcher of the runtime does it. Where a
  greedy repetition is followed by a character outside its class, only the longest run can
  lead to a match, so the run is taken whole; the one place where a shorter run can matter
  (white space before the dot repetition) tries the runs from the longest down.
\<close>

text \<open>A literal word under the flag \<^verbatim>\<open>i\<close>: returns the rest of the input.\<close>

fun matchLiteralCI :: "string \<Rightarrow> string \<Rightarrow> string option" where
  "matchLiteralCI [] s = Some s"
| "matchLiteralCI (p # ps) [] = None"
| "matchLiteralCI (p # ps) (c # cs) =
     (if canonicalize c = canonicalize p then matchLiteralCI ps cs else None)"

text \<open>\<^verbatim>\<open>\s+\<close> before a character that is not white space.\<close>

fun skipSpaces1 :: "string \<Rightarrow> string option" where
  "skipSpaces1 [] = None"
| "skipSpaces1 (c # cs) = (if isSpace c then Some (dropWhile isSpace cs) else None)"

text \<open>\<^verbatim>\<open>\s+(.+)$\<close>: the capture is what follows the longest run of white space that leaves
  a non-empty rest without a line terminator.\<close>

definition spacesThenRest :: "string \<Rightarrow> string option" where
  "spacesThenRest s =
     (let n = length (takeWhile isSpace s)
      in find (\<lambda>r. r \<noteq> [] \<and> \<not> list_ex isLineTerminator r)
              (map (\<lambda>k. drop k s) (rev [1 ..< Suc n])))"

text \<open>\<^verbatim>\<open>to\s+(.+)$\<close>.\<close>

definition renameTail :: "string \<Rightarrow> string option" where
  "renameTail s = Option.bind (matchLiteralCI ''to'' s) spacesThenRest"

text \<open>\<^verbatim>\<open>header\s+name\s+\<close>, the optional group.\<close>

definition headerNameGroup :: "string \<Rightarrow> string option" where
  "headerNameGroup s =
     Option.bind (Option.bind (Option.bind (matchLiteralCI ''header'' s) skipSpaces1)
       (matchLiteralCI ''name'')) skipSpaces1"

text \<open>
  \<^verbatim>\<open>/^change\s+column\s+([A-Z]+)\s+(?:header\s+name\s+)?to\s+(.+)$/i\<close>: the two captures.
  The optional group is tried first and given up when the rest does not match after it.
\<close>

definition renameMatch :: "string \<Rightarrow> (string \<times> string) option" where
  "renameMatch s =
     (case Option.bind (Option.bind (Option.bind (matchLiteralCI ''change'' s) skipSpaces1)
             (matchLiteralCI ''column'')) skipSpaces1 of
        None \<Rightarrow> None
      | Some r \<Rightarrow>
          (let letters = takeWhile isLetterCI r
           in if letters = [] then None
              else (case skipSpaces1 (dropWhile isLetterCI r) of
                      None \<Rightarrow> None
                    | Some t \<Rightarrow>
                        (case Option.bind (headerNameGroup t) renameTail of
                           Some newName \<Rightarrow> Some (letters, newName)
                         | None \<Rightarrow>
                             (case renameTail t of
                                None \<Rightarrow> None
                              | Some newName \<Rightarrow> Some (letters, newName))))))"

text \<open>\<^verbatim>\<open>/^([A-Z]*)(\d+)$/\<close>, the pattern of the end cell.\<close>

definition endMatch :: "string \<Rightarrow> (string \<times> string) option" where
  "endMatch s =
     (let digits = dropWhile isUpperAZ s
      in if digits \<noteq> [] \<and> list_all isDigit digits
         then Some (takeWhile isUpperAZ s, digits) else None)"

text \<open>\<^verbatim>\<open>/^([A-Z]+)(\d+)-([A-Z]*\d+)$/\<close>: start column, start row and end cell.\<close>

definition rangeMatch :: "string \<Rightarrow> (string \<times> string \<times> string) option" where
  "rangeMatch s =
     (let startCol = takeWhile isUpperAZ s;
          r = dropWhile isUpperAZ s;
          startRow = takeWhile isDigit r
      in if startCol = [] \<or> startRow = [] then None
         else (case dropWhile isDigit r of
                 [] \<Rightarrow> None
               | c # endCell \<Rightarrow>
                   (let digits = dropWhile isUpperAZ endCell
                    in if c = CHR ''-'' \<and> digits \<noteq> [] \<and> list_all isDigit digits
                       then Some (startCol, startRow, endCell) else None)))"

text \<open>\<^verbatim>\<open>/^([A-Z]+)(\d+)$/\<close>, the pattern of a single cell.\<close>

definition cellMatch :: "string \<Rightarrow> (string \<times> string) option" where
  "cellMatch s =
     (let column = takeWhile isUpperAZ s; digits = dropWhile isUpperAZ s
      in if column \<noteq> [] \<and> digits \<noteq> [] \<and> list_all isDigit digits
         then Some (column, digits) else None)"

subsection \<open>Data model\<close>

text \<open>
  Field names follow the source; where two interfaces share a field name the second one
  carries a prefix (\<open>cmd\<close> for the parsed command, \<open>target\<close> and \<open>data\<close> for the two
  coordinate objects of the events), and \<^verbatim>\<open>value\<close> and \<^verbatim>\<open>type\<close>, which are reserved
  words here, are \<open>cvalue\<close>, \<open>ctype\<close> and \<open>stype\<close>.
\<close>

record CustomError =
  errorMessage :: string
  statusCode :: nat

datatype CommandType = SINGLE | RANGE | HEADER_RENAME

record ParsedCommand =
  ctype :: CommandType
  cell :: "string option"
  cmdCol :: "int option"
  cmdRow :: "int option"
  startCell :: "string option"
  endCell :: "string option"
  startCol :: "int option"
  startRow :: "int option"
  endCol :: "int option"
  endRow :: "int option"
  cmdValue :: string
  originalCommand :: string

record CellFormat =
  bold :: bool
  italic :: bool
  color :: string
  backgroundColor :: string

record SpreadsheetCell =
  row :: int
  col :: int
  cvalue :: string
  format :: CellFormat

record SpreadsheetState =
  cells :: "SpreadsheetCell list"
  rows :: int
  columns :: int
  headers :: "string list"

record UserEvent =
  message :: string
  userId :: string
  sessionId :: string

record Target =
  targetRow :: int
  targetCol :: int

datatype ActionKind = UPDATE_CELL | ACTION_HEADER_RENAME | GENERAL_MESSAGE

text \<open>The four shapes of the object \<^verbatim>\<open>data\<close> of an action event.\<close>

datatype ActionData =
  DataValue string
| DataRange string string int
| DataHeader string string
| DataMessage string

record ActionEvent =
  action :: ActionKind
  target :: Target
  data :: ActionData
  actionMessage :: string

datatype StateKind = CELL_UPDATE | STATE_HEADER_RENAME

record CellData =
  dataRow :: int
  dataCol :: int
  dataValue :: string

record StateEvent =
  stype :: StateKind
  cellData :: CellData

record SpreadsheetDataStore =
  userEvents :: "UserEvent list"
  actionEvents :: "ActionEvent list"
  stateEvents :: "StateEvent list"
  spreadsheetState :: SpreadsheetState

record ProcessResult =
  userEvent :: UserEvent
  actionEvent :: ActionEvent
  stateEvent :: StateEvent
  parsedCommand :: ParsedCommand

definition MAX_ROWS :: int where
  "MAX_ROWS = 100"

definition INITIAL_ROWS :: int where
  "INITIAL_ROWS = 100"

definition defaultFormat :: CellFormat where
  "defaultFormat = \<lparr>bold = False, italic = False, color = ''#000000'', backgroundColor = ''#ffffff''\<rparr>"

subsection \<open>Command parser\<close>

definition blankCommand :: "CommandType \<Rightarrow> string \<Rightarrow> string \<Rightarrow> ParsedCommand" where
  "blankCommand t v raw =
     \<lparr>ctype = t, cell = None, cmdCol = None, cmdRow = None, startCell = None, endCell = None,
      startCol = None, startRow = None, endCol = None, endRow = None,
      cmdValue = v, originalCommand = raw\<rparr>"

text \<open>
  \<^verbatim>\<open>parseCommand\<close> (lines 114 to 200). It reads the column count of the store for the
  header rename. The order of the source is kept: token count, rename, range, single cell.
\<close>

definition parseCommand :: "string \<Rightarrow> SpreadsheetState \<Rightarrow> CustomError + ParsedCommand" where
  "parseCommand msg st =
     (let trimmedMessage = trim msg;
          parts = splitSpaces trimmedMessage
      in if length parts < 2
         then Inl \<lparr>errorMessage = ''Invalid command format. Use: <cell> <value> or <range> <value>'',
                   statusCode = 400\<rparr>
         else
          (case renameMatch trimmedMessage of
             Some (letters, name) \<Rightarrow>
               (let columnLetter = toUpperCase letters;
                    newName = trim name;
                    colIndex = letterToColumnIndex columnLetter
                in if colIndex < 0 \<or> colIndex \<ge> columns st
                   then Inl \<lparr>errorMessage = ''Invalid column: '' @ columnLetter, statusCode = 400\<rparr>
                   else Inr ((blankCommand HEADER_RENAME newName trimmedMessage)
                               \<lparr>cmdCol := Some colIndex\<rparr>))
           | None \<Rightarrow>
               (let cellOrRange = toUpperCase (parts ! 0);
                    v = joinSpace (tl parts)
                in case rangeMatch cellOrRange of
                     Some (startColLetters, startRowDigits, endCellText) \<Rightarrow>
                       (case endMatch endCellText of
                          None \<Rightarrow> Inl \<lparr>errorMessage = ''Invalid range format'', statusCode = 400\<rparr>
                        | Some (endColLetters, endRowDigits) \<Rightarrow>
                            (let startColIndex = letterToColumnIndex startColLetters;
                                 startRowIndex = parseInt startRowDigits;
                                 endColIndex = (if endColLetters \<noteq> []
                                                then letterToColumnIndex endColLetters
                                                else startColIndex);
                                 endRowIndex = parseInt endRowDigits
                             in Inr ((blankCommand RANGE v trimmedMessage)
                                       \<lparr>startCell := Some (startColLetters @ startRowDigits),
                                        endCell := Some endCellText,
                                        startCol := Some startColIndex,
                                        startRow := Some startRowIndex,
                                        endCol := Some endColIndex,
                                        endRow := Some endRowIndex\<rparr>)))
                   | None \<Rightarrow>
                       (case cellMatch cellOrRange of
                          None \<Rightarrow> Inl \<lparr>errorMessage = ''Invalid cell format. Use: A1, B5, etc.'',
                                         statusCode = 400\<rparr>
                        | Some (columnLetters, rowDigits) \<Rightarrow>
                            (let colIndex = letterToColumnIndex columnLetters;
                                 rowIndex = parseInt rowDigits
                             in if rowIndex < 1
                                then Inl \<lparr>errorMessage = ''Row number must be at least 1'',
                                          statusCode = 400\<rparr>
                                else Inr ((blankCommand SINGLE v trimmedMessage)
                                            \<lparr>cell := Some cellOrRange,
                                             cmdCol := Some colIndex,
                                             cmdRow := Some rowIndex\<rparr>))))))"

subsection \<open>Grid store\<close>

text \<open>\<^verbatim>\<open>Array.prototype.findIndex\<close>: the first position whose element passes, or \<open>-1\<close>.\<close>

fun findIndexFrom :: "('a \<Rightarrow> bool) \<Rightarrow> 'a list \<Rightarrow> int \<Rightarrow> int" where
  "findIndexFrom P [] i = - 1"
| "findIndexFrom P (x # xs) i = (if P x then i else findIndexFrom P xs (i + 1))"

definition findIndex :: "('a \<Rightarrow> bool) \<Rightarrow> 'a list \<Rightarrow> int" where
  "findIndex P xs = findIndexFrom P xs 0"

text \<open>
  The expansion of the grid before a write (lines 248 to 260, and again 316 to 326):
  \<open>row1\<close> is the 1-based row and \<open>c\<close> the 0-based column of the cell to write.
\<close>

definition expandGrid :: "int \<Rightarrow> int \<Rightarrow> SpreadsheetState \<Rightarrow> SpreadsheetState" where
  "expandGrid row1 c g =
     (let newRows = min (max (rows g) row1) MAX_ROWS;
          newColumns = max (columns g) (c + 1);
          g1 = (if newRows > rows g then g\<lparr>rows := newRows\<rparr> else g)
      in if newColumns > columns g1
         then g1\<lparr>columns := newColumns, headers := generateColumnHeaders newColumns\<rparr>
         else g1)"

definition newCell :: "int \<Rightarrow> int \<Rightarrow> string \<Rightarrow> SpreadsheetCell" where
  "newCell rowIndex c v = \<lparr>row = rowIndex, col = c, cvalue = v, format = defaultFormat\<rparr>"

text \<open>The write itself (lines 263 to 283, and again 332 to 352).\<close>

definition upsertCell :: "SpreadsheetCell \<Rightarrow> SpreadsheetState \<Rightarrow> SpreadsheetState" where
  "upsertCell entry g =
     (let existingCellIndex =
            findIndex (\<lambda>x. row x = row entry \<and> col x = col entry) (cells g)
      in if existingCellIndex \<ge> 0
         then g\<lparr>cells := (cells g)[nat existingCellIndex := entry]\<rparr>
         else g\<lparr>cells := cells g @ [entry]\<rparr>)"

text \<open>
  The two nested loops of a range fill (lines 313 to 356). The pair carries the grid and
  the list \<^verbatim>\<open>cellsUpdated\<close>.
\<close>

definition rangeCell ::
  "int \<Rightarrow> int \<Rightarrow> string \<Rightarrow> SpreadsheetState \<times> SpreadsheetCell list
     \<Rightarrow> SpreadsheetState \<times> SpreadsheetCell list" where
  "rangeCell row1 c v acc =
     (let g1 = expandGrid row1 c (fst acc);
          rowIndex = row1 - 1;
          entry = newCell rowIndex c v
      in (upsertCell entry g1, snd acc @ [entry]))"

function rangeCols ::
  "int \<Rightarrow> int \<Rightarrow> int \<Rightarrow> string \<Rightarrow> SpreadsheetState \<times> SpreadsheetCell list
     \<Rightarrow> SpreadsheetState \<times> SpreadsheetCell list" where
  "rangeCols row1 c lastCol v acc =
     (if c \<le> lastCol then rangeCols row1 (c + 1) lastCol v (rangeCell row1 c v acc) else acc)"
  by pat_completeness auto
termination
  by (relation "measure (\<lambda>(row1, c, lastCol, v, acc). nat (lastCol + 1 - c))") auto

declare rangeCols.simps [simp del]

function rangeRows ::
  "int \<Rightarrow> int \<Rightarrow> int \<Rightarrow> int \<Rightarrow> string \<Rightarrow> SpreadsheetState \<times> SpreadsheetCell list
     \<Rightarrow> SpreadsheetState \<times> SpreadsheetCell list" where
  "rangeRows row1 lastRow firstCol lastCol v acc =
     (if row1 \<le> lastRow
      then rangeRows (row1 + 1) lastRow firstCol lastCol v (rangeCols row1 firstCol lastCol v acc)
      else acc)"
  by pat_completeness auto
termination
  by (relation "measure (\<lambda>(row1, lastRow, firstCol, lastCol, v, acc). nat (lastRow + 1 - row1))") auto

declare rangeRows.simps [simp del]

text \<open>
  Reading and writing \<^verbatim>\<open>headers[colIndex]\<close>. Inside the bounds it is the list operation.
  Beyond the end the runtime reads \<^verbatim>\<open>undefined\<close> and a write lengthens the array, leaving
  holes; the model shows a hole as the text that a template literal prints for it.
\<close>

definition headerAt :: "string list \<Rightarrow> int \<Rightarrow> string" where
  "headerAt hs i = (if 0 \<le> i \<and> i < int (length hs) then hs ! nat i else ''undefined'')"

definition setHeader :: "string list \<Rightarrow> int \<Rightarrow> string \<Rightarrow> string list" where
  "setHeader hs i v =
     (if i < int (length hs) then hs[nat i := v]
      else hs @ replicate (nat i - length hs) ''undefined'' @ [v])"

text \<open>An optional string inside a template literal.\<close>

definition optString :: "string option \<Rightarrow> string" where
  "optString x = (case x of None \<Rightarrow> ''undefined'' | Some t \<Rightarrow> t)"

definition quote :: string where
  "quote = [char_of (34 :: nat)]"

text \<open>
  The branches of \<^verbatim>\<open>processUserMessage\<close> on the parsed command (lines 244 to 446): the
  action event, the state event and the grid after the edit, or the error thrown by the
  rename branch, which is thrown before anything is written. The non-null assertions of
  the source are \<^const>\<open>the\<close>.
\<close>

definition applyCommand ::
  "ParsedCommand \<Rightarrow> SpreadsheetState
     \<Rightarrow> CustomError + (ActionEvent \<times> StateEvent \<times> SpreadsheetState)" where
  "applyCommand cmd g =
     (if ctype cmd = SINGLE \<and> cmdRow cmd \<noteq> None \<and> cmdCol cmd \<noteq> None then
        (let r = the (cmdRow cmd);
             c = the (cmdCol cmd);
             rowIndex = r - 1;
             g1 = expandGrid r c g;
             g2 = upsertCell (newCell rowIndex c (cmdValue cmd)) g1
         in Inr (\<lparr>action = UPDATE_CELL,
                   target = \<lparr>targetRow = rowIndex, targetCol = c\<rparr>,
                   data = DataValue (cmdValue cmd),
                   actionMessage = ''Updated cell '' @ optString (cell cmd)\<rparr>,
                 \<lparr>stype = CELL_UPDATE,
                   cellData = \<lparr>dataRow = rowIndex, dataCol = c, dataValue = cmdValue cmd\<rparr>\<rparr>,
                 g2))
      else if ctype cmd = RANGE then
        (let filled = rangeRows (the (startRow cmd)) (the (endRow cmd))
                        (the (startCol cmd)) (the (endCol cmd)) (cmdValue cmd) (g, []);
             cellsUpdated = snd filled;
             rangeText = optString (startCell cmd) @ ''-'' @ optString (endCell cmd);
             n = int (length cellsUpdated)
         in Inr (\<lparr>action = UPDATE_CELL,
                   target = \<lparr>targetRow = the (startRow cmd), targetCol = the (startCol cmd)\<rparr>,
                   data = DataRange (cmdValue cmd) rangeText n,
                   actionMessage = ''Updated range '' @ rangeText @ '' with '' @ quote @ cmdValue cmd
                                   @ quote @ '' ('' @ numberToString n @ '' cells)''\<rparr>,
                 \<lparr>stype = CELL_UPDATE,
                   cellData = \<lparr>dataRow = the (startRow cmd), dataCol = the (startCol cmd),
                               dataValue = cmdValue cmd\<rparr>\<rparr>,
                 fst filled))
      else if ctype cmd = HEADER_RENAME then
        (let colIndex = the (cmdCol cmd);
             newName = cmdValue cmd
         in if colIndex < 0 \<or> colIndex \<ge> columns g
            then Inl \<lparr>errorMessage = ''Invalid column index for header rename: ''
                                      @ numberToString colIndex,
                      statusCode = 400\<rparr>
            else
             (let oldHeader = headerAt (headers g) colIndex
              in Inr (\<lparr>action = ACTION_HEADER_RENAME,
                        target = \<lparr>targetRow = - 1, targetCol = colIndex\<rparr>,
                        data = DataHeader oldHeader newName,
                        actionMessage = ''Header renamed from '' @ quote @ oldHeader @ quote
                                        @ '' to '' @ quote @ newName @ quote\<rparr>,
                      \<lparr>stype = STATE_HEADER_RENAME,
                        cellData = \<lparr>dataRow = - 1, dataCol = colIndex, dataValue = newName\<rparr>\<rparr>,
                      g\<lparr>headers := setHeader (headers g) colIndex newName\<rparr>)))
      else
        Inr (\<lparr>action = GENERAL_MESSAGE,
                target = \<lparr>targetRow = - 1, targetCol = - 1\<rparr>,
                data = DataMessage (cmdValue cmd),
                actionMessage = ''Message: '' @ cmdValue cmd\<rparr>,
              \<lparr>stype = CELL_UPDATE,
                cellData = \<lparr>dataRow = - 1, dataCol = - 1, dataValue = cmdValue cmd\<rparr>\<rparr>,
              g))"

text \<open>\<^verbatim>\<open>userId || 'anonymous'\<close>: the default replaces a missing and an empty string.\<close>

definition orDefault :: "string option \<Rightarrow> string \<Rightarrow> string" where
  "orDefault x d = (case x of None \<Rightarrow> d | Some t \<Rightarrow> if t = [] then d else t)"

definition failedToProcess :: CustomError where
  "failedToProcess = \<lparr>errorMessage = ''Failed to process user message'', statusCode = 500\<rparr>"

text \<open>
  \<^verbatim>\<open>processUserMessage\<close> (lines 222 to 463), the operation the specification calls
  \<open>apply\<close>. The user event is logged before the command is parsed. The handler of the
  surrounding \<^verbatim>\<open>try\<close> replaces whatever was thrown by one fixed error.
\<close>

definition processUserMessage ::
  "string \<Rightarrow> string option \<Rightarrow> string option \<Rightarrow> SpreadsheetDataStore
     \<Rightarrow> (CustomError + ProcessResult) \<times> SpreadsheetDataStore" where
  "processUserMessage msg uid sid store =
     (let ue = \<lparr>message = msg, userId = orDefault uid ''anonymous'',
                sessionId = orDefault sid ''default''\<rparr>;
          store1 = store\<lparr>userEvents := userEvents store @ [ue]\<rparr>
      in case parseCommand msg (spreadsheetState store1) of
           Inl thrown \<Rightarrow> (Inl failedToProcess, store1)
         | Inr cmd \<Rightarrow>
             (case applyCommand cmd (spreadsheetState store1) of
                Inl thrown \<Rightarrow> (Inl failedToProcess, store1)
              | Inr (ae, se, g) \<Rightarrow>
                  (Inr \<lparr>userEvent = ue, actionEvent = ae, stateEvent = se, parsedCommand = cmd\<rparr>,
                   store1\<lparr>spreadsheetState := g,
                          actionEvents := actionEvents store1 @ [ae],
                          stateEvents := stateEvents store1 @ [se]\<rparr>)))"

subsection \<open>The store at start-up\<close>

text \<open>The field initialisers and \<^verbatim>\<open>initializeMockData\<close> (lines 56 to 111).\<close>

definition mockCells :: "SpreadsheetCell list" where
  "mockCells =
     concat (map (\<lambda>r. map (\<lambda>c. newCell r c (''Row '' @ numberToString (r + 1) @ '' Col ''
                                               @ columnIndexToLetter c))
                           [0 .. 9])
                 [0 .. 99])"

definition initialStore :: SpreadsheetDataStore where
  "initialStore =
     \<lparr>userEvents = [],
      actionEvents = [\<lparr>action = UPDATE_CELL, target = \<lparr>targetRow = 0, targetCol = 0\<rparr>,
                       data = DataValue ''Sample Data'', actionMessage = ''Updated cell A1''\<rparr>],
      stateEvents = [\<lparr>stype = CELL_UPDATE,
                      cellData = \<lparr>dataRow = 0, dataCol = 0, dataValue = ''Sample Data''\<rparr>\<rparr>],
      spreadsheetState = \<lparr>cells = mockCells, rows = INITIAL_ROWS, columns = 26,
                          headers = generateColumnHeaders 26\<rparr>\<rparr>"

text \<open>
  A sequence of calls on the one store of the module: each call is a message with its
  optional user and session, and the store of one call is handed to the next whether the
  call failed or not.
\<close>

fun runMessages ::
  "(string \<times> string option \<times> string option) list \<Rightarrow> SpreadsheetDataStore
     \<Rightarrow> SpreadsheetDataStore" where
  "runMessages [] store = store"
| "runMessages ((msg, uid, sid) # calls) store =
     runMessages calls (snd (processUserMessage msg uid sid store))"

subsection \<open>Notions used to state the properties\<close>

text \<open>
  The cell of the grid at a coordinate: the first entry of the list with that row and
  column, which is the entry that the store itself finds and overwrites.
\<close>

definition cellAt :: "int \<Rightarrow> int \<Rightarrow> SpreadsheetCell list \<Rightarrow> SpreadsheetCell option" where
  "cellAt r c cs = find (\<lambda>x. row x = r \<and> col x = c) cs"

text \<open>Replacing the first element that passes a test, or appending when none does.\<close>

fun upsertList :: "('a \<Rightarrow> bool) \<Rightarrow> 'a \<Rightarrow> 'a list \<Rightarrow> 'a list" where
  "upsertList P e [] = [e]"
| "upsertList P e (x # xs) = (if P x then e # xs else x # upsertList P e xs)"

text \<open>The shape of the grid that every call keeps: one header per column, rows within the cap.\<close>

definition gridOk :: "SpreadsheetState \<Rightarrow> bool" where
  "gridOk g \<longleftrightarrow> int (length (headers g)) = columns g \<and> rows g \<le> MAX_ROWS"

section \<open>Properties of the column codec\<close>

lemma letterLoop_acc: "letterLoop s r = r * 26 ^ length s + letterLoop s 0"
proof (induction s arbitrary: r)
  case Nil show ?case by simp
next
  case (Cons c cs)
  have "letterLoop (c # cs) r = (r * 26 + (charCode c - 64)) * 26 ^ length cs + letterLoop cs 0"
    using Cons.IH[of "r * 26 + (charCode c - 64)"] by simp
  moreover have "letterLoop (c # cs) 0 = (charCode c - 64) * 26 ^ length cs + letterLoop cs 0"
    using Cons.IH[of "charCode c - 64"] by simp
  ultimately show ?case by (simp add: algebra_simps)
qed

lemma letterLoop_snoc: "letterLoop (xs @ [c]) r = letterLoop xs r * 26 + (charCode c - 64)"
  by (induction xs arbitrary: r) simp_all

lemma letterLoop_nonneg: "list_all isUpperAZ xs \<Longrightarrow> 0 \<le> r \<Longrightarrow> 0 \<le> letterLoop xs r"
  by (induction xs arbitrary: r) (auto simp: isUpperAZ_def)

lemma charCode_char_of: "0 \<le> n \<Longrightarrow> n < 256 \<Longrightarrow> charCode (char_of (n::int)) = n"
  by (simp add: charCode_def)

lemma char_of_charCode: "char_of (charCode c) = c"
  by (simp add: charCode_def)

lemma columnIndexLoop_value:
  "- 1 \<le> index \<Longrightarrow> letterLoop (columnIndexLoop index acc) 0 = (index + 1) * 26 ^ length acc + letterLoop acc 0"
proof (induction index acc rule: columnIndexLoop.induct)
  case (1 index result)
  show ?case
  proof (cases "0 \<le> index")
    case True
    let ?c = "char_of (65 + index mod 26) :: char"
    have cc: "charCode ?c = 65 + index mod 26"
      by (rule charCode_char_of) (use True in auto)
    have "- 1 \<le> index div 26 - 1" using True by simp
    from "1.IH"[OF True this]
    have "letterLoop (columnIndexLoop (index div 26 - 1) (?c # result)) 0
          = (index div 26) * 26 ^ Suc (length result) + letterLoop (?c # result) 0"
      by simp
    also have "letterLoop (?c # result) 0 = (index mod 26 + 1) * 26 ^ length result + letterLoop result 0"
      using letterLoop_acc[of result "charCode ?c - 64"] by (simp add: cc)
    also have "(index div 26) * 26 ^ Suc (length result) + ((index mod 26 + 1) * 26 ^ length result + letterLoop result 0)
          = (index div 26 * 26 + (index mod 26 + 1)) * 26 ^ length result + letterLoop result 0"
      by (simp only: power_Suc distrib_right mult.assoc add.assoc)
    also have "index div 26 * 26 + (index mod 26 + 1) = index + 1" by simp
    finally show ?thesis using True by (subst columnIndexLoop.simps) simp
  next
    case False
    with "1.prems" have "index = - 1" by simp
    then show ?thesis by (subst columnIndexLoop.simps) simp
  qed
qed

lemma letter_of_index: "0 \<le> i \<Longrightarrow> letterToColumnIndex (columnIndexToLetter i) = i"
  using columnIndexLoop_value[of i "[]"] by (simp add: letterToColumnIndex_def columnIndexToLetter_def)

lemma columnIndexLoop_upper:
  "- 1 \<le> index \<Longrightarrow> list_all isUpperAZ acc \<Longrightarrow> list_all isUpperAZ (columnIndexLoop index acc)"
proof (induction index acc rule: columnIndexLoop.induct)
  case (1 index result)
  show ?case
  proof (cases "0 \<le> index")
    case True
    let ?c = "char_of (65 + index mod 26) :: char"
    have cc: "charCode ?c = 65 + index mod 26"
      by (rule charCode_char_of) (use True in auto)
    have "isUpperAZ ?c" unfolding isUpperAZ_def cc by simp
    with "1.IH"[OF True] "1.prems" True show ?thesis
      by (subst columnIndexLoop.simps) simp
  next
    case False
    with "1.prems" show ?thesis by (subst columnIndexLoop.simps) simp
  qed
qed

lemma index_of_letter_loop:
  "list_all isUpperAZ L \<Longrightarrow> columnIndexLoop (letterLoop L 0 - 1) acc = L @ acc"
proof (induction L arbitrary: acc rule: rev_induct)
  case Nil
  show ?case by (subst columnIndexLoop.simps) simp
next
  case (snoc c xs)
  from snoc.prems have up: "list_all isUpperAZ xs" by simp
  from snoc.prems have c: "65 \<le> charCode c" "charCode c \<le> 90"
    by (simp_all add: isUpperAZ_def)
  let ?v = "letterLoop xs 0"
  have v: "0 \<le> ?v" using up by (simp add: letterLoop_nonneg)
  let ?i = "?v * 26 + (charCode c - 64) - 1"
  have i0: "0 \<le> ?i" using v c by simp
  have "?i = (charCode c - 65) + ?v * 26" by simp
  then have m: "?i mod 26 = charCode c - 65" and d: "?i div 26 = ?v"
    using c by (simp_all only: mod_mult_self3 div_mult_self3) auto
  have "columnIndexLoop ?i acc = columnIndexLoop (?i div 26 - 1) (char_of (65 + ?i mod 26) # acc)"
    using i0 by (subst columnIndexLoop.simps) simp
  also have "\<dots> = columnIndexLoop (?v - 1) (c # acc)"
    unfolding m d by (simp add: char_of_charCode)
  also have "\<dots> = xs @ c # acc" using snoc.IH[OF up] .
  finally show ?case by (simp add: letterLoop_snoc)
qed

lemma index_of_letter:
  "list_all isUpperAZ L \<Longrightarrow> columnIndexToLetter (letterToColumnIndex L) = L"
  using index_of_letter_loop[of L "[]"] by (simp add: letterToColumnIndex_def columnIndexToLetter_def)

lemma parseColumnLoop_upper:
  "list_all isUpperAZ U \<Longrightarrow>
   parseColumnLoop U r = (if letterLoop U r > 702 then - 1 else letterLoop U r - 1)"
  by (induction U arbitrary: r) (auto simp: isUpperAZ_def)

lemma upperChar_letter: "isLetterCI c \<Longrightarrow> \<exists>u. upperChar c = [u] \<and> isUpperAZ u"
proof -
  assume a: "isLetterCI c"
  show ?thesis
  proof (cases "97 \<le> charCode c \<and> charCode c \<le> 122")
    case True
    then have "charCode (char_of (charCode c - 32)) = charCode c - 32"
      by (intro charCode_char_of) auto
    with True show ?thesis by (simp add: upperChar_def isUpperAZ_def)
  next
    case False
    with a have "isUpperAZ c" by (simp add: isLetterCI_def)
    then show ?thesis by (auto simp: upperChar_def isUpperAZ_def Let_def)
  qed
qed

lemma toUpperCase_letters:
  "list_all isLetterCI L \<Longrightarrow> list_all isUpperAZ (toUpperCase L)"
proof (induction L)
  case Nil show ?case by (simp add: toUpperCase_def)
next
  case (Cons c cs)
  then obtain u where "upperChar c = [u]" "isUpperAZ u" using upperChar_letter[of c] by auto
  with Cons show ?case by (simp add: toUpperCase_def)
qed

lemma toUpperCase_upper: "list_all isUpperAZ L \<Longrightarrow> toUpperCase L = L"
  by (induction L) (auto simp: toUpperCase_def upperChar_def isUpperAZ_def Let_def)

lemma parseColumn_letters:
  "list_all isLetterCI L \<Longrightarrow>
   parseColumn L = (if letterToColumnIndex (toUpperCase L) > 701 then - 1
                    else letterToColumnIndex (toUpperCase L))"
  by (simp add: parseColumn_def letterToColumnIndex_def parseColumnLoop_upper toUpperCase_letters)

lemma columnIndexToLetter_upper: "0 \<le> i \<Longrightarrow> list_all isUpperAZ (columnIndexToLetter i)"
  by (simp add: columnIndexToLetter_def columnIndexLoop_upper)

text \<open>
  Without the upper-casing that the parser applies first, the unchecked decoder reads a
  lower-case letter as a digit beyond 26.
\<close>

lemma lower_case_not_decoded: "letterToColumnIndex ''a'' = 32" "columnIndexToLetter 32 = ''AG''"
  by code_simp+

text \<open>
  Claim C5. The column codec is a bijection on its accepted domain. For every index \<open>i\<close>
  from 0 to 701 the letters of \<open>i\<close> decode to \<open>i\<close>, and for every non-empty string \<open>L\<close>
  of letters whose index is at most 701 the index of \<open>L\<close> encodes to the upper-case form
  of \<open>L\<close>. The decoder is taken both ways the source has it: \<^const>\<open>letterToColumnIndex\<close>,
  behind the upper-casing that every call in the parser applies first, and the checked
  \<^const>\<open>parseColumn\<close>, which upper-cases by itself.
\<close>

theorem column_codec_bijection:
  "(0 \<le> i \<and> i \<le> 701 \<longrightarrow>
      letterToColumnIndex (columnIndexToLetter i) = i \<and>
      parseColumn (columnIndexToLetter i) = i) \<and>
   (L \<noteq> [] \<and> list_all isLetterCI L \<and> letterToColumnIndex (toUpperCase L) \<le> 701 \<longrightarrow>
      columnIndexToLetter (letterToColumnIndex (toUpperCase L)) = toUpperCase L \<and>
      columnIndexToLetter (parseColumn L) = toUpperCase L)"
proof (intro conjI impI)
  assume i: "0 \<le> i \<and> i \<le> 701"
  then have up: "list_all isUpperAZ (columnIndexToLetter i)"
    by (simp add: columnIndexToLetter_upper)
  then have same: "toUpperCase (columnIndexToLetter i) = columnIndexToLetter i"
    by (rule toUpperCase_upper)
  show "letterToColumnIndex (columnIndexToLetter i) = i"
    using i by (simp add: letter_of_index)
  have "list_all isLetterCI (columnIndexToLetter i)"
    using up by (induction "columnIndexToLetter i") (auto simp: isLetterCI_def list_all_iff)
  then show "parseColumn (columnIndexToLetter i) = i"
    using i by (simp add: parseColumn_letters same letter_of_index)
next
  assume L: "L \<noteq> [] \<and> list_all isLetterCI L \<and> letterToColumnIndex (toUpperCase L) \<le> 701"
  then have up: "list_all isUpperAZ (toUpperCase L)" by (simp add: toUpperCase_letters)
  then show "columnIndexToLetter (letterToColumnIndex (toUpperCase L)) = toUpperCase L"
    by (rule index_of_letter)
  then show "columnIndexToLetter (parseColumn L) = toUpperCase L"
    using L by (simp add: parseColumn_letters)
qed

theorem column_codec_bijection_witness:
  "letterToColumnIndex (columnIndexToLetter 27) = 27 \<and>
   parseColumn (columnIndexToLetter 27) = 27 \<and>
   columnIndexToLetter (letterToColumnIndex (toUpperCase ''zz'')) = ''ZZ'' \<and>
   columnIndexToLetter (parseColumn ''zz'') = ''ZZ''"
proof -
  have u: "toUpperCase ''zz'' = ''ZZ''"
    by code_simp
  have h1: "(0::int) \<le> 27 \<and> (27::int) \<le> 701" by simp
  have h2: "''zz'' \<noteq> [] \<and> list_all isLetterCI ''zz'' \<and> letterToColumnIndex (toUpperCase ''zz'') \<le> 701"
    by code_simp
  show ?thesis
    using column_codec_bijection[of 27 "''zz''"] h1 h2 by (simp add: u)
qed

section \<open>Properties of the grid store\<close>

lemma findIndexFrom_range: "findIndexFrom P xs i = - 1 \<or> i \<le> findIndexFrom P xs i"
proof (induction xs arbitrary: i)
  case Nil show ?case by simp
next
  case (Cons x xs)
  from Cons.IH[of "i + 1"] show ?case by auto
qed

lemma findIndexFrom_upsert:
  "0 \<le> i \<Longrightarrow>
   (if findIndexFrom P xs i \<ge> 0 then xs[nat (findIndexFrom P xs i - i) := e] else xs @ [e])
     = upsertList P e xs"
proof (induction xs arbitrary: i)
  case Nil then show ?case by simp
next
  case (Cons x xs)
  show ?case
  proof (cases "P x")
    case True then show ?thesis using Cons.prems by simp
  next
    case False
    let ?r = "findIndexFrom P xs (i + 1)"
    have ih: "(if ?r \<ge> 0 then xs[nat (?r - (i + 1)) := e] else xs @ [e]) = upsertList P e xs"
      using Cons.IH[of "i + 1"] Cons.prems by simp
    from findIndexFrom_range[of P xs "i + 1"] show ?thesis
    proof
      assume "?r = - 1"
      with ih False show ?thesis by simp
    next
      assume le: "i + 1 \<le> ?r"
      then have "nat (?r - i) = Suc (nat (?r - (i + 1)))" by simp
      with ih False le Cons.prems show ?thesis by simp
    qed
  qed
qed

lemma findIndex_upsert:
  "(if findIndex P xs \<ge> 0 then xs[nat (findIndex P xs) := e] else xs @ [e]) = upsertList P e xs"
  using findIndexFrom_upsert[of 0 P xs e] by (auto simp: findIndex_def split: if_splits)

lemma cells_upsertCell:
  "cells (upsertCell e g) = upsertList (\<lambda>x. row x = row e \<and> col x = col e) e (cells g)"
proof -
  let ?P = "\<lambda>x. row x = row e \<and> col x = col e"
  have "cells (upsertCell e g)
          = (if findIndex ?P (cells g) \<ge> 0 then (cells g)[nat (findIndex ?P (cells g)) := e]
             else cells g @ [e])"
    by (simp add: upsertCell_def Let_def)
  then show ?thesis by (simp only: findIndex_upsert)
qed

lemma upsertCell_frame [simp]:
  "rows (upsertCell e g) = rows g" "columns (upsertCell e g) = columns g"
  "headers (upsertCell e g) = headers g"
  by (simp_all add: upsertCell_def Let_def)

lemma cellAt_upsert_same:
  "cellAt (row e) (col e) (upsertList (\<lambda>x. row x = row e \<and> col x = col e) e cs) = Some e"
  by (induction cs) (simp_all add: cellAt_def)

lemma cellAt_upsert_other:
  "r \<noteq> row e \<or> c \<noteq> col e \<Longrightarrow>
   cellAt r c (upsertList (\<lambda>x. row x = row e \<and> col x = col e) e cs) = cellAt r c cs"
  by (induction cs) (auto simp: cellAt_def)

lemma cellAt_mem: "cellAt r c cs = Some x \<Longrightarrow> x \<in> set cs \<and> row x = r \<and> col x = c"
  by (induction cs) (auto simp: cellAt_def split: if_splits)

lemma length_upsertList:
  "length (upsertList P e cs) = (if find P cs = None then Suc (length cs) else length cs)"
  by (induction cs) simp_all

lemma length_cells_upsertCell:
  "length (cells (upsertCell e g))
     = (if cellAt (row e) (col e) (cells g) = None then Suc (length (cells g))
        else length (cells g))"
  by (simp add: cells_upsertCell length_upsertList cellAt_def)

lemma length_generateColumnHeaders: "length (generateColumnHeaders n) = nat n"
  by (simp add: generateColumnHeaders_def)

lemma expandGrid_cells [simp]: "cells (expandGrid r c g) = cells g"
  by (simp add: expandGrid_def Let_def)

lemma expandGrid_rows:
  "rows (expandGrid r c g) = (if rows g < MAX_ROWS \<and> rows g < r then min r MAX_ROWS else rows g)"
  by (auto simp: expandGrid_def Let_def)

lemma expandGrid_columns: "columns (expandGrid r c g) = max (columns g) (c + 1)"
  by (auto simp: expandGrid_def Let_def)

lemma expandGrid_grows:
  "rows g \<le> rows (expandGrid r c g) \<and> columns g \<le> columns (expandGrid r c g) \<and>
   (gridOk g \<longrightarrow> gridOk (expandGrid r c g))"
  by (auto simp: expandGrid_def Let_def gridOk_def length_generateColumnHeaders)

lemma upsertCell_gridOk [simp]: "gridOk (upsertCell e g) = gridOk g"
  by (simp add: gridOk_def)

lemma rangeCell_fst:
  "fst (rangeCell r c v acc) = upsertCell (newCell (r - 1) c v) (expandGrid r c (fst acc))"
  by (simp add: rangeCell_def Let_def)

lemma rangeCell_snd: "snd (rangeCell r c v acc) = snd acc @ [newCell (r - 1) c v]"
  by (simp add: rangeCell_def Let_def)

lemma rangeCell_grows:
  "rows (fst acc) \<le> rows (fst (rangeCell r c v acc)) \<and>
   columns (fst acc) \<le> columns (fst (rangeCell r c v acc)) \<and>
   (gridOk (fst acc) \<longrightarrow> gridOk (fst (rangeCell r c v acc)))"
  using expandGrid_grows[of "fst acc" r c] by (simp add: rangeCell_fst)

lemma rangeCols_grows:
  "rows (fst acc) \<le> rows (fst (rangeCols r c lastCol v acc)) \<and>
   columns (fst acc) \<le> columns (fst (rangeCols r c lastCol v acc)) \<and>
   (gridOk (fst acc) \<longrightarrow> gridOk (fst (rangeCols r c lastCol v acc)))"
proof (induction r c lastCol v acc rule: rangeCols.induct)
  case (1 r c lastCol v acc)
  show ?case
  proof (cases "c \<le> lastCol")
    case True
    have eq: "rangeCols r c lastCol v acc = rangeCols r (c + 1) lastCol v (rangeCell r c v acc)"
      using True by (subst rangeCols.simps) simp
    from "1.IH"[OF True] rangeCell_grows[of acc r c v] show ?thesis
      unfolding eq by auto
  next
    case False
    then show ?thesis by (subst (1 2 3) rangeCols.simps) simp
  qed
qed

lemma rangeRows_grows:
  "rows (fst acc) \<le> rows (fst (rangeRows r lastRow c lastCol v acc)) \<and>
   columns (fst acc) \<le> columns (fst (rangeRows r lastRow c lastCol v acc)) \<and>
   (gridOk (fst acc) \<longrightarrow> gridOk (fst (rangeRows r lastRow c lastCol v acc)))"
proof (induction r lastRow c lastCol v acc rule: rangeRows.induct)
  case (1 r lastRow c lastCol v acc)
  show ?case
  proof (cases "r \<le> lastRow")
    case True
    have eq: "rangeRows r lastRow c lastCol v acc
                = rangeRows (r + 1) lastRow c lastCol v (rangeCols r c lastCol v acc)"
      using True by (subst rangeRows.simps) simp
    from "1.IH"[OF True] rangeCols_grows[of acc r c lastCol v] show ?thesis
      unfolding eq by auto
  next
    case False
    then show ?thesis by (subst (1 2 3) rangeRows.simps) simp
  qed
qed

lemma setHeader_length:
  "0 \<le> i \<Longrightarrow> i < int (length hs) \<Longrightarrow> length (setHeader hs i v) = length hs"
  by (simp add: setHeader_def)

lemma applyCommand_grows:
  assumes "applyCommand cmd g = Inr (ae, se, g')"
  shows "rows g \<le> rows g' \<and> columns g \<le> columns g' \<and> (gridOk g \<longrightarrow> gridOk g')"
proof -
  consider (single) "ctype cmd = SINGLE \<and> cmdRow cmd \<noteq> None \<and> cmdCol cmd \<noteq> None"
    | (range) "\<not> (ctype cmd = SINGLE \<and> cmdRow cmd \<noteq> None \<and> cmdCol cmd \<noteq> None)" "ctype cmd = RANGE"
    | (rename) "\<not> (ctype cmd = SINGLE \<and> cmdRow cmd \<noteq> None \<and> cmdCol cmd \<noteq> None)" "ctype cmd = HEADER_RENAME"
    | (general) "\<not> (ctype cmd = SINGLE \<and> cmdRow cmd \<noteq> None \<and> cmdCol cmd \<noteq> None)"
        "ctype cmd \<noteq> RANGE" "ctype cmd \<noteq> HEADER_RENAME"
    by blast
  then show ?thesis
  proof cases
    case single
    with assms have "g' = upsertCell (newCell (the (cmdRow cmd) - 1) (the (cmdCol cmd)) (cmdValue cmd))
                            (expandGrid (the (cmdRow cmd)) (the (cmdCol cmd)) g)"
      by (simp add: applyCommand_def Let_def)
    with expandGrid_grows[of g "the (cmdRow cmd)" "the (cmdCol cmd)"] show ?thesis by simp
  next
    case range
    with assms have "g' = fst (rangeRows (the (startRow cmd)) (the (endRow cmd))
                        (the (startCol cmd)) (the (endCol cmd)) (cmdValue cmd) (g, []))"
      by (simp add: applyCommand_def Let_def)
    with rangeRows_grows[of "(g, [])"] show ?thesis by simp
  next
    case rename
    with assms have ok: "\<not> (the (cmdCol cmd) < 0 \<or> columns g \<le> the (cmdCol cmd))"
      and g': "g' = g\<lparr>headers := setHeader (headers g) (the (cmdCol cmd)) (cmdValue cmd)\<rparr>"
      by (auto simp: applyCommand_def Let_def split: if_splits)
    show ?thesis using ok by (auto simp: g' gridOk_def setHeader_length)
  next
    case general
    with assms have "g' = g" by (auto simp: applyCommand_def Let_def)
    then show ?thesis by simp
  qed
qed

lemma processUserMessage_grows:
  "rows (spreadsheetState store) \<le> rows (spreadsheetState (snd (processUserMessage msg uid sid store))) \<and>
   columns (spreadsheetState store) \<le> columns (spreadsheetState (snd (processUserMessage msg uid sid store))) \<and>
   (gridOk (spreadsheetState store) \<longrightarrow> gridOk (spreadsheetState (snd (processUserMessage msg uid sid store))))"
  by (auto simp: processUserMessage_def Let_def split: sum.splits dest: applyCommand_grows)

lemma initialStore_gridOk: "gridOk (spreadsheetState initialStore)"
  by (simp add: initialStore_def gridOk_def length_generateColumnHeaders INITIAL_ROWS_def MAX_ROWS_def)

lemma runMessages_grows:
  "rows (spreadsheetState store) \<le> rows (spreadsheetState (runMessages calls store)) \<and>
   columns (spreadsheetState store) \<le> columns (spreadsheetState (runMessages calls store)) \<and>
   (gridOk (spreadsheetState store) \<longrightarrow> gridOk (spreadsheetState (runMessages calls store)))"
proof (induction calls arbitrary: store)
  case Nil show ?case by simp
next
  case (Cons call calls)
  obtain msg uid sid where call: "call = (msg, uid, sid)" by (cases call) auto
  from Cons.IH[of "snd (processUserMessage msg uid sid store)"]
       processUserMessage_grows[of store msg uid sid]
  show ?case unfolding call by auto
qed

lemma reachable_shape:
  "gridOk (spreadsheetState (runMessages calls initialStore)) \<and>
   26 \<le> columns (spreadsheetState (runMessages calls initialStore))"
  using runMessages_grows[of initialStore calls] initialStore_gridOk
  by (simp add: initialStore_def)

section \<open>Filling one column\<close>

lemma rangeCols_single: "rangeCols r c c v acc = rangeCell r c v acc"
proof -
  have "rangeCols r c c v acc = rangeCols r (c + 1) c v (rangeCell r c v acc)"
    by (subst rangeCols.simps) simp
  also have "\<dots> = rangeCell r c v acc"
    by (subst rangeCols.simps) simp
  finally show ?thesis .
qed

lemma rangeRows_done: "\<not> a \<le> b \<Longrightarrow> rangeRows a b c1 c2 v acc = acc"
  by (subst rangeRows.simps) simp

lemma rangeRows_column_step:
  "a \<le> b \<Longrightarrow> rangeRows a b c c v acc = rangeRows (a + 1) b c c v (rangeCell a c v acc)"
  by (subst rangeRows.simps) (simp add: rangeCols_single)

lemma cellAt_rangeCell_same:
  "cellAt (a - 1) c (cells (fst (rangeCell a c v acc))) = Some (newCell (a - 1) c v)"
  using cellAt_upsert_same[of "newCell (a - 1) c v" "cells (fst acc)"]
  by (simp add: rangeCell_fst cells_upsertCell newCell_def)

lemma cellAt_rangeCell_other:
  "r \<noteq> a - 1 \<or> k \<noteq> c \<Longrightarrow>
   cellAt r k (cells (fst (rangeCell a c v acc))) = cellAt r k (cells (fst acc))"
  using cellAt_upsert_other[of r "newCell (a - 1) c v" k "cells (fst acc)"]
  by (simp add: rangeCell_fst cells_upsertCell newCell_def)

lemma rangeRows_column_below:
  "r + 1 < a \<Longrightarrow>
   cellAt r k (cells (fst (rangeRows a b c c v acc))) = cellAt r k (cells (fst acc))"
proof (induction "nat (b + 1 - a)" arbitrary: a acc)
  case 0
  then show ?case by (simp add: rangeRows_done)
next
  case (Suc n)
  then have ab: "a \<le> b" and n: "n = nat (b + 1 - (a + 1))" by linarith+
  have "cellAt r k (cells (fst (rangeRows (a + 1) b c c v (rangeCell a c v acc))))
          = cellAt r k (cells (fst (rangeCell a c v acc)))"
    using Suc.hyps(1)[OF n] Suc.prems by simp
  also have "\<dots> = cellAt r k (cells (fst acc))"
    using Suc.prems by (intro cellAt_rangeCell_other) simp
  finally show ?case by (simp add: rangeRows_column_step[OF ab])
qed

lemma rangeRows_column_filled:
  "a \<le> r \<Longrightarrow> r \<le> b \<Longrightarrow>
   cellAt (r - 1) c (cells (fst (rangeRows a b c c v acc))) = Some (newCell (r - 1) c v)"
proof (induction "nat (b + 1 - a)" arbitrary: a acc)
  case 0
  then show ?case by simp
next
  case (Suc n)
  then have ab: "a \<le> b" and n: "n = nat (b + 1 - (a + 1))" by linarith+
  show ?case
  proof (cases "r = a")
    case True
    have "cellAt (a - 1) c (cells (fst (rangeRows (a + 1) b c c v (rangeCell a c v acc))))
            = cellAt (a - 1) c (cells (fst (rangeCell a c v acc)))"
      by (rule rangeRows_column_below) simp
    then show ?thesis
      by (simp add: True rangeRows_column_step[OF ab] cellAt_rangeCell_same)
  next
    case False
    with Suc.prems have "a + 1 \<le> r" by simp
    from Suc.hyps(1)[OF n this Suc.prems(2)] show ?thesis
      by (simp add: rangeRows_column_step[OF ab])
  qed
qed

lemma rangeRows_column_count:
  "length (snd (rangeRows a b c c v acc)) = length (snd acc) + nat (b + 1 - a)"
proof (induction "nat (b + 1 - a)" arbitrary: a acc)
  case 0
  then show ?case by (simp add: rangeRows_done)
next
  case (Suc n)
  then have ab: "a \<le> b" and n: "n = nat (b + 1 - (a + 1))" by linarith+
  from Suc.hyps(1)[OF n, of "rangeCell a c v acc"] Suc.hyps(2) show ?case
    by (simp add: rangeRows_column_step[OF ab] rangeCell_snd)
qed

lemma rows_rangeCell:
  "rows (fst (rangeCell a c v acc))
     = (if rows (fst acc) < MAX_ROWS \<and> rows (fst acc) < a then min a MAX_ROWS else rows (fst acc))"
  by (simp add: rangeCell_fst expandGrid_rows)

lemma rangeRows_column_rows:
  "a \<le> b \<Longrightarrow>
   rows (fst (rangeRows a b c c v acc))
     = (if rows (fst acc) < MAX_ROWS then max (rows (fst acc)) (min b MAX_ROWS) else rows (fst acc))"
proof (induction "nat (b + 1 - a)" arbitrary: a acc)
  case 0
  then show ?case by simp
next
  case (Suc n)
  then have ab: "a \<le> b" and n: "n = nat (b + 1 - (a + 1))" by linarith+
  show ?case
  proof (cases "a + 1 \<le> b")
    case True
    from Suc.hyps(1)[OF n True, of "rangeCell a c v acc"] ab True show ?thesis
      by (simp add: rangeRows_column_step[OF ab] rows_rangeCell)
  next
    case False
    with ab have "a = b" by simp
    then show ?thesis
      by (simp add: rangeRows_column_step rangeRows_done rows_rangeCell)
  qed
qed


section \<open>The parser on the commands of the examples\<close>

lemma parse_hello_world:
  "parseCommand ''Hello World'' g =
     Inl \<lparr>errorMessage = ''Invalid cell format. Use: A1, B5, etc.'', statusCode = 400\<rparr>"
  by code_simp

lemma parse_ZZZ1:
  "parseCommand ''ZZZ1 x'' g =
     Inr ((blankCommand SINGLE ''x'' ''ZZZ1 x'')
            \<lparr>cell := Some ''ZZZ1'', cmdCol := Some 18277, cmdRow := Some 1\<rparr>)"
  by code_simp

lemma parse_A0:
  "parseCommand ''A0 x'' g =
     Inl \<lparr>errorMessage = ''Row number must be at least 1'', statusCode = 400\<rparr>"
  by code_simp

lemma parse_A0_5:
  "parseCommand ''A0-5 x'' g =
     Inr ((blankCommand RANGE ''x'' ''A0-5 x'')
            \<lparr>startCell := Some ''A0'', endCell := Some ''5'', startCol := Some 0,
             startRow := Some 0, endCol := Some 0, endRow := Some 5\<rparr>)"
  by code_simp

lemma parse_A1_100:
  "parseCommand ''A1-100 X'' g =
     Inr ((blankCommand RANGE ''X'' ''A1-100 X'')
            \<lparr>startCell := Some ''A1'', endCell := Some ''100'', startCol := Some 0,
             startRow := Some 1, endCol := Some 0, endRow := Some 100\<rparr>)"
  by code_simp

lemma rename_B_parts:
  "trim ''change column B to Age'' = ''change column B to Age''"
  "splitSpaces ''change column B to Age'' = [''change'', ''column'', ''B'', ''to'', ''Age'']"
  "renameMatch ''change column B to Age'' = Some (''B'', ''Age'')"
  "toUpperCase ''B'' = ''B''"
  "letterToColumnIndex ''B'' = 1"
  "trim ''Age'' = ''Age''"
  by code_simp+

lemma parse_rename_B:
  "1 < columns g \<Longrightarrow>
   parseCommand ''change column B to Age'' g =
     Inr ((blankCommand HEADER_RENAME ''Age'' ''change column B to Age'')\<lparr>cmdCol := Some 1\<rparr>)"
  unfolding parseCommand_def by (simp add: rename_B_parts Let_def)

lemma parse_hello:
  "parseCommand ''hello'' g =
     Inl \<lparr>errorMessage = ''Invalid command format. Use: <cell> <value> or <range> <value>'',
          statusCode = 400\<rparr>"
  by code_simp

lemma codec_ZZZ: "letterToColumnIndex ''ZZZ'' = 18277" "parseColumn ''ZZZ'' = - 1"
  by code_simp+

text \<open>
  Every command that the parser accepts carries the fields that its branch of
  \<^const>\<open>applyCommand\<close> reads, so the non-null assertions never meet a missing field and
  the branch for a general message is never taken.
\<close>

lemma parse_fields:
  assumes "parseCommand msg g = Inr cmd"
  shows "(ctype cmd = SINGLE \<and> cmdRow cmd \<noteq> None \<and> cmdCol cmd \<noteq> None) \<or>
         (ctype cmd = RANGE \<and> startRow cmd \<noteq> None \<and> endRow cmd \<noteq> None \<and>
            startCol cmd \<noteq> None \<and> endCol cmd \<noteq> None) \<or>
         (ctype cmd = HEADER_RENAME \<and> cmdCol cmd \<noteq> None)"
  using assms
  by (auto simp: parseCommand_def Let_def blankCommand_def
           split: if_splits option.splits prod.splits)

lemma general_branch_unreachable:
  assumes "parseCommand msg g = Inr cmd" and "applyCommand cmd h = Inr (ae, se, h')"
  shows "action ae \<noteq> GENERAL_MESSAGE"
proof -
  from parse_fields[OF assms(1)] consider
      (single) "ctype cmd = SINGLE" "cmdRow cmd \<noteq> None" "cmdCol cmd \<noteq> None"
    | (range) "ctype cmd = RANGE"
    | (rename) "ctype cmd = HEADER_RENAME"
    by blast
  then show ?thesis
  proof cases
    case single
    with assms(2) show ?thesis by (auto simp: applyCommand_def Let_def)
  next
    case range
    with assms(2) show ?thesis by (auto simp: applyCommand_def Let_def)
  next
    case rename
    with assms(2) show ?thesis by (auto simp: applyCommand_def Let_def split: if_splits)
  qed
qed

lemma parse_single_fields:
  assumes "parseCommand msg g = Inr cmd" "ctype cmd = SINGLE"
  shows "\<exists>r c. cmdRow cmd = Some r \<and> cmdCol cmd = Some c \<and> 1 \<le> r"
  using assms
  by (auto simp: parseCommand_def Let_def blankCommand_def
           split: if_splits option.splits prod.splits)

section \<open>Calls that succeed and calls that fail\<close>

lemma processUserMessage_ok:
  assumes "parseCommand msg (spreadsheetState store) = Inr cmd"
    and "applyCommand cmd (spreadsheetState store) = Inr (ae, se, g')"
  shows "processUserMessage msg uid sid store =
     (Inr \<lparr>userEvent = \<lparr>message = msg, userId = orDefault uid ''anonymous'',
                          sessionId = orDefault sid ''default''\<rparr>,
            actionEvent = ae, stateEvent = se, parsedCommand = cmd\<rparr>,
      store\<lparr>userEvents := userEvents store
                @ [\<lparr>message = msg, userId = orDefault uid ''anonymous'',
                    sessionId = orDefault sid ''default''\<rparr>],
            spreadsheetState := g',
            actionEvents := actionEvents store @ [ae],
            stateEvents := stateEvents store @ [se]\<rparr>)"
  using assms by (simp add: processUserMessage_def Let_def)

lemma every_failure_is_generic:
  "fst (processUserMessage msg uid sid store) = Inl err \<Longrightarrow> err = failedToProcess"
  by (auto simp: processUserMessage_def Let_def split: sum.splits)

lemma failure_keeps_store:
  "fst (processUserMessage msg uid sid store) = Inl err \<Longrightarrow>
   \<exists>ue. snd (processUserMessage msg uid sid store) = store\<lparr>userEvents := userEvents store @ [ue]\<rparr>"
  by (auto simp: processUserMessage_def Let_def split: sum.splits)

lemma userEvents_irrelevant:
  "fst (processUserMessage msg uid sid (store\<lparr>userEvents := log\<rparr>))
     = fst (processUserMessage msg uid sid store) \<and>
   spreadsheetState (snd (processUserMessage msg uid sid (store\<lparr>userEvents := log\<rparr>)))
     = spreadsheetState (snd (processUserMessage msg uid sid store)) \<and>
   actionEvents (snd (processUserMessage msg uid sid (store\<lparr>userEvents := log\<rparr>)))
     = actionEvents (snd (processUserMessage msg uid sid store)) \<and>
   stateEvents (snd (processUserMessage msg uid sid (store\<lparr>userEvents := log\<rparr>)))
     = stateEvents (snd (processUserMessage msg uid sid store))"
  by (auto simp: processUserMessage_def Let_def split: sum.splits)

lemma single_write:
  assumes p: "parseCommand msg (spreadsheetState store) = Inr cmd"
    and t: "ctype cmd = SINGLE"
    and r: "cmdRow cmd = Some r" and c: "cmdCol cmd = Some c"
  shows "(\<exists>res. fst (processUserMessage msg uid sid store) = Inr res) \<and>
         spreadsheetState (snd (processUserMessage msg uid sid store))
           = upsertCell (newCell (r - 1) c (cmdValue cmd)) (expandGrid r c (spreadsheetState store))"
proof -
  let ?g = "spreadsheetState store"
  let ?g' = "upsertCell (newCell (r - 1) c (cmdValue cmd)) (expandGrid r c ?g)"
  have "\<exists>ae se. applyCommand cmd ?g = Inr (ae, se, ?g')"
    by (simp add: applyCommand_def Let_def t r c)
  then obtain ae se where ap: "applyCommand cmd ?g = Inr (ae, se, ?g')" by blast
  note out = processUserMessage_ok[OF p ap, of uid sid]
  show ?thesis by (simp add: out)
qed

lemma newCell_literal:
  "newCell r c v =
     \<lparr>row = r, col = c, cvalue = v,
      format = \<lparr>bold = False, italic = False, color = ''#000000'',
                 backgroundColor = ''#ffffff''\<rparr>\<rparr>"
  by (simp add: newCell_def defaultFormat_def)

lemma parse_A200_new:
  "parseCommand ''A200 new'' g =
     Inr ((blankCommand SINGLE ''new'' ''A200 new'')
            \<lparr>cell := Some ''A200'', cmdCol := Some 0, cmdRow := Some 200\<rparr>)"
  by code_simp

section \<open>The claims\<close>

text \<open>
  Claim C1 says that text whose first token is no cell, no range and no rename command is
  taken as a general message and never rejected. The code rejects it: on the input
  \<^verbatim>\<open>Hello World\<close> the parser throws the error for an invalid cell format, the call fails
  and neither event log grows.
\<close>

theorem unrecognized_text_is_rejected:
  "parseCommand ''Hello World'' g =
     Inl \<lparr>errorMessage = ''Invalid cell format. Use: A1, B5, etc.'', statusCode = 400\<rparr> \<and>
   fst (processUserMessage ''Hello World'' uid sid store) =
     Inl \<lparr>errorMessage = ''Failed to process user message'', statusCode = 500\<rparr> \<and>
   actionEvents (snd (processUserMessage ''Hello World'' uid sid store)) = actionEvents store \<and>
   stateEvents (snd (processUserMessage ''Hello World'' uid sid store)) = stateEvents store"
  by (simp add: processUserMessage_def parse_hello_world Let_def failedToProcess_def)

text \<open>
  Claim C2 says that the call on \<^verbatim>\<open>ZZZ1 x\<close> fails because column \<^verbatim>\<open>ZZZ\<close> lies beyond
  \<^verbatim>\<open>ZZ\<close>. The code accepts it: the parser decodes the column with the unchecked
  \<^const>\<open>letterToColumnIndex\<close>, not with \<^const>\<open>parseColumn\<close>, so the call succeeds,
  widens the grid to 18278 columns (if it was narrower) and writes the cell.
\<close>

theorem column_ZZZ_is_accepted:
  "letterToColumnIndex ''ZZZ'' = 18277 \<and> parseColumn ''ZZZ'' = - 1 \<and>
   (\<exists>res. fst (processUserMessage ''ZZZ1 x'' uid sid store) = Inr res \<and>
          ctype (parsedCommand res) = SINGLE \<and> cmdCol (parsedCommand res) = Some 18277) \<and>
   columns (spreadsheetState (snd (processUserMessage ''ZZZ1 x'' uid sid store)))
     = max (columns (spreadsheetState store)) 18278 \<and>
   cellAt 0 18277 (cells (spreadsheetState (snd (processUserMessage ''ZZZ1 x'' uid sid store))))
     = Some (newCell 0 18277 ''x'')"
proof -
  let ?cmd = "(blankCommand SINGLE ''x'' ''ZZZ1 x'')
                \<lparr>cell := Some ''ZZZ1'', cmdCol := Some 18277, cmdRow := Some 1\<rparr>"
  let ?g = "spreadsheetState store"
  let ?g' = "upsertCell (newCell 0 18277 ''x'') (expandGrid 1 18277 ?g)"
  have ap: "\<exists>ae se. applyCommand ?cmd ?g = Inr (ae, se, ?g')"
    by (simp add: applyCommand_def blankCommand_def Let_def)
  then obtain ae se where ap': "applyCommand ?cmd ?g = Inr (ae, se, ?g')" by blast
  have out: "processUserMessage ''ZZZ1 x'' uid sid store =
     (Inr \<lparr>userEvent = \<lparr>message = ''ZZZ1 x'', userId = orDefault uid ''anonymous'',
                          sessionId = orDefault sid ''default''\<rparr>,
            actionEvent = ae, stateEvent = se, parsedCommand = ?cmd\<rparr>,
      store\<lparr>userEvents := userEvents store @ [\<lparr>message = ''ZZZ1 x'', userId = orDefault uid ''anonymous'',
                          sessionId = orDefault sid ''default''\<rparr>],
            spreadsheetState := ?g',
            actionEvents := actionEvents store @ [ae],
            stateEvents := stateEvents store @ [se]\<rparr>)"
    by (simp add: processUserMessage_def parse_ZZZ1 Let_def ap')
  have c: "cellAt 0 18277 (cells ?g') = Some (newCell 0 18277 ''x'')"
    using cellAt_upsert_same[of "newCell 0 18277 ''x''" "cells ?g"]
    by (simp add: cells_upsertCell newCell_def)
  show ?thesis
    by (simp add: out codec_ZZZ c expandGrid_columns blankCommand_def)
qed

text \<open>
  Claim C3 says that a validation failure reaches the caller with its own message and
  the status 400. The code throws these errors inside the parser, and the handler of
  \<^verbatim>\<open>processUserMessage\<close> replaces each of them by one fixed error with the status 500:
  shown on a row below 1 and on a command of one token.
\<close>

theorem validation_message_is_replaced:
  "parseCommand ''A0 x'' g =
     Inl \<lparr>errorMessage = ''Row number must be at least 1'', statusCode = 400\<rparr> \<and>
   fst (processUserMessage ''A0 x'' uid sid store) =
     Inl \<lparr>errorMessage = ''Failed to process user message'', statusCode = 500\<rparr> \<and>
   parseCommand ''hello'' g =
     Inl \<lparr>errorMessage = ''Invalid command format. Use: <cell> <value> or <range> <value>'',
          statusCode = 400\<rparr> \<and>
   fst (processUserMessage ''hello'' uid sid store) =
     Inl \<lparr>errorMessage = ''Failed to process user message'', statusCode = 500\<rparr>"
  by (simp add: processUserMessage_def parse_A0 parse_hello Let_def failedToProcess_def)

text \<open>
  Claim C4 says that a command on a row below 1 fails and edits nothing, for a single cell
  and for a range alike. The single cell \<^verbatim>\<open>A0 x\<close> does fail and leaves the grid as it
  was. The range \<^verbatim>\<open>A0-5 x\<close> is not checked: the call succeeds and writes a cell at the
  row index \<open>-1\<close>.
\<close>

theorem range_from_row_zero_is_applied:
  "fst (processUserMessage ''A0 x'' uid sid store) = Inl failedToProcess \<and>
   spreadsheetState (snd (processUserMessage ''A0 x'' uid sid store)) = spreadsheetState store \<and>
   (\<exists>res. fst (processUserMessage ''A0-5 x'' uid sid store) = Inr res \<and>
          ctype (parsedCommand res) = RANGE \<and> startRow (parsedCommand res) = Some 0 \<and>
          data (actionEvent res) = DataRange ''x'' ''A0-5'' 6) \<and>
   cellAt (- 1) 0 (cells (spreadsheetState (snd (processUserMessage ''A0-5 x'' uid sid store))))
     = Some (newCell (- 1) 0 ''x'')"
proof -
  let ?g = "spreadsheetState store"
  let ?cmd = "(blankCommand RANGE ''x'' ''A0-5 x'')
                \<lparr>startCell := Some ''A0'', endCell := Some ''5'', startCol := Some 0,
                 startRow := Some 0, endCol := Some 0, endRow := Some 5\<rparr>"
  let ?filled = "rangeRows 0 5 0 0 ''x'' (?g, [])"
  have n: "length (snd ?filled) = 6"
    using rangeRows_column_count[of 0 5 0 "''x''" "(?g, [])"] by simp
  have "\<exists>ae se. applyCommand ?cmd ?g = Inr (ae, se, fst ?filled) \<and>
                data ae = DataRange ''x'' ''A0-5'' 6"
    by (simp add: applyCommand_def blankCommand_def Let_def optString_def n)
  then obtain ae se where ap: "applyCommand ?cmd ?g = Inr (ae, se, fst ?filled)"
    and d: "data ae = DataRange ''x'' ''A0-5'' 6" by blast
  note out = processUserMessage_ok[OF parse_A0_5 ap, of uid sid]
  have g': "spreadsheetState (snd (processUserMessage ''A0-5 x'' uid sid store)) = fst ?filled"
    by (simp add: out)
  have res: "\<exists>res. fst (processUserMessage ''A0-5 x'' uid sid store) = Inr res \<and>
          ctype (parsedCommand res) = RANGE \<and> startRow (parsedCommand res) = Some 0 \<and>
          data (actionEvent res) = DataRange ''x'' ''A0-5'' 6"
    by (simp add: out d blankCommand_def)
  have c: "cellAt (- 1) 0 (cells (fst ?filled)) = Some (newCell (- 1) 0 ''x'')"
    using rangeRows_column_filled[of 0 0 5 0 "''x''" "(?g, [])"] by simp
  have single: "fst (processUserMessage ''A0 x'' uid sid store) = Inl failedToProcess \<and>
                spreadsheetState (snd (processUserMessage ''A0 x'' uid sid store)) = ?g"
    by (simp add: processUserMessage_def parse_A0 Let_def)
  show ?thesis using single res c by (simp add: g')
qed

text \<open>
  Claim C6. On any store the call on \<^verbatim>\<open>A1-100 X\<close> is parsed as a range from row 1 to
  row 100 whose end column is the start column 0; afterwards the cell at every coordinate
  of column 0 in the rows 0 to 99 has the value \<^verbatim>\<open>X\<close> and the default format, the row
  count is 100 unless it was larger before, and the action log has grown by exactly one
  event, whose count of updated cells is 100.
\<close>

theorem fill_A1_to_A100:
  "(\<exists>res. fst (processUserMessage ''A1-100 X'' uid sid store) = Inr res \<and>
          ctype (parsedCommand res) = RANGE \<and>
          startCol (parsedCommand res) = Some 0 \<and> endCol (parsedCommand res) = Some 0 \<and>
          startRow (parsedCommand res) = Some 1 \<and> endRow (parsedCommand res) = Some 100 \<and>
          actionEvents (snd (processUserMessage ''A1-100 X'' uid sid store))
            = actionEvents store @ [actionEvent res] \<and>
          data (actionEvent res) = DataRange ''X'' ''A1-100'' 100) \<and>
   (\<forall>r. 0 \<le> r \<and> r \<le> 99 \<longrightarrow>
        cellAt r 0 (cells (spreadsheetState (snd (processUserMessage ''A1-100 X'' uid sid store))))
          = Some \<lparr>row = r, col = 0, cvalue = ''X'',
                  format = \<lparr>bold = False, italic = False, color = ''#000000'',
                             backgroundColor = ''#ffffff''\<rparr>\<rparr>) \<and>
   rows (spreadsheetState (snd (processUserMessage ''A1-100 X'' uid sid store)))
     = (if rows (spreadsheetState store) < 100 then 100 else rows (spreadsheetState store))"
proof -
  let ?g = "spreadsheetState store"
  let ?cmd = "(blankCommand RANGE ''X'' ''A1-100 X'')
                \<lparr>startCell := Some ''A1'', endCell := Some ''100'', startCol := Some 0,
                 startRow := Some 1, endCol := Some 0, endRow := Some 100\<rparr>"
  let ?filled = "rangeRows 1 100 0 0 ''X'' (?g, [])"
  have n: "length (snd ?filled) = 100"
    using rangeRows_column_count[of 1 100 0 "''X''" "(?g, [])"] by simp
  have "\<exists>ae se. applyCommand ?cmd ?g = Inr (ae, se, fst ?filled) \<and>
                data ae = DataRange ''X'' ''A1-100'' 100"
    by (simp add: applyCommand_def blankCommand_def Let_def optString_def n)
  then obtain ae se where ap: "applyCommand ?cmd ?g = Inr (ae, se, fst ?filled)"
    and d: "data ae = DataRange ''X'' ''A1-100'' 100" by blast
  note out = processUserMessage_ok[OF parse_A1_100 ap, of uid sid]
  have g': "spreadsheetState (snd (processUserMessage ''A1-100 X'' uid sid store)) = fst ?filled"
    by (simp add: out)
  have res: "\<exists>res. fst (processUserMessage ''A1-100 X'' uid sid store) = Inr res \<and>
          ctype (parsedCommand res) = RANGE \<and>
          startCol (parsedCommand res) = Some 0 \<and> endCol (parsedCommand res) = Some 0 \<and>
          startRow (parsedCommand res) = Some 1 \<and> endRow (parsedCommand res) = Some 100 \<and>
          actionEvents (snd (processUserMessage ''A1-100 X'' uid sid store))
            = actionEvents store @ [actionEvent res] \<and>
          data (actionEvent res) = DataRange ''X'' ''A1-100'' 100"
    by (simp add: out d blankCommand_def)
  have filled: "\<forall>r. 0 \<le> r \<and> r \<le> 99 \<longrightarrow>
      cellAt r 0 (cells (fst ?filled))
        = Some \<lparr>row = r, col = 0, cvalue = ''X'',
                format = \<lparr>bold = False, italic = False, color = ''#000000'',
                           backgroundColor = ''#ffffff''\<rparr>\<rparr>"
  proof (intro allI impI)
    fix r :: int
    assume "0 \<le> r \<and> r \<le> 99"
    then have "1 \<le> r + 1" "r + 1 \<le> 100" by simp_all
    from rangeRows_column_filled[OF this, of 0 "''X''" "(?g, [])"] show
      "cellAt r 0 (cells (fst ?filled))
         = Some \<lparr>row = r, col = 0, cvalue = ''X'',
                 format = \<lparr>bold = False, italic = False, color = ''#000000'',
                            backgroundColor = ''#ffffff''\<rparr>\<rparr>"
      by (simp add: newCell_literal)
  qed
  have rws: "rows (fst ?filled) = (if rows ?g < 100 then 100 else rows ?g)"
    using rangeRows_column_rows[of 1 100 0 "''X''" "(?g, [])"] by (simp add: MAX_ROWS_def)
  show ?thesis unfolding g' using res filled rws g' by simp
qed

theorem fill_A1_to_A100_witness:
  "cellAt 99 0 (cells (spreadsheetState (snd (processUserMessage ''A1-100 X'' None None initialStore))))
     = Some \<lparr>row = 99, col = 0, cvalue = ''X'',
             format = \<lparr>bold = False, italic = False, color = ''#000000'',
                        backgroundColor = ''#ffffff''\<rparr>\<rparr> \<and>
   rows (spreadsheetState (snd (processUserMessage ''A1-100 X'' None None initialStore))) = 100"
proof -
  have h: "(0::int) \<le> 99 \<and> (99::int) \<le> 99" by simp
  have r: "rows (spreadsheetState initialStore) = 100"
    by (simp add: initialStore_def INITIAL_ROWS_def)
  from fill_A1_to_A100[of None None initialStore] h r show ?thesis by simp
qed

text \<open>
  Claim C7. On the store after any sequence of calls, the call on
  \<^verbatim>\<open>change column B to Age\<close> succeeds and sets the header at index 1 to \<^verbatim>\<open>Age\<close>; the
  other headers, the cells and the row and column counts stay as they were.
\<close>

theorem rename_B_changes_only_the_header:
  "(\<exists>res. fst (processUserMessage ''change column B to Age'' uid sid (runMessages calls initialStore))
            = Inr res) \<and>
   headers (spreadsheetState (snd (processUserMessage ''change column B to Age'' uid sid
              (runMessages calls initialStore))))
     = (headers (spreadsheetState (runMessages calls initialStore)))[1 := ''Age''] \<and>
   headers (spreadsheetState (snd (processUserMessage ''change column B to Age'' uid sid
              (runMessages calls initialStore)))) ! 1 = ''Age'' \<and>
   cells (spreadsheetState (snd (processUserMessage ''change column B to Age'' uid sid
              (runMessages calls initialStore))))
     = cells (spreadsheetState (runMessages calls initialStore)) \<and>
   rows (spreadsheetState (snd (processUserMessage ''change column B to Age'' uid sid
              (runMessages calls initialStore))))
     = rows (spreadsheetState (runMessages calls initialStore)) \<and>
   columns (spreadsheetState (snd (processUserMessage ''change column B to Age'' uid sid
              (runMessages calls initialStore))))
     = columns (spreadsheetState (runMessages calls initialStore))"
proof -
  let ?st = "runMessages calls initialStore"
  let ?g = "spreadsheetState ?st"
  let ?cmd = "(blankCommand HEADER_RENAME ''Age'' ''change column B to Age'')\<lparr>cmdCol := Some 1\<rparr>"
  from reachable_shape[of calls] have len: "int (length (headers ?g)) = columns ?g"
    and cols: "26 \<le> columns ?g" by (simp_all add: gridOk_def)
  then have one: "1 < length (headers ?g)" by linarith
  have p: "parseCommand ''change column B to Age'' ?g = Inr ?cmd"
    using cols by (intro parse_rename_B) simp
  have sh: "setHeader (headers ?g) 1 ''Age'' = (headers ?g)[1 := ''Age'']"
    using one by (simp add: setHeader_def)
  have "\<exists>ae se. applyCommand ?cmd ?g = Inr (ae, se, ?g\<lparr>headers := (headers ?g)[1 := ''Age'']\<rparr>)"
    using cols by (simp add: applyCommand_def blankCommand_def Let_def sh)
  then obtain ae se where
    ap: "applyCommand ?cmd ?g = Inr (ae, se, ?g\<lparr>headers := (headers ?g)[1 := ''Age'']\<rparr>)" by blast
  show ?thesis
    using one by (simp add: processUserMessage_def p ap Let_def)
qed

text \<open>
  Claim C8. A call that fails leaves the grid, the action log and the state log as they
  were, and any call made afterwards returns the same result and leaves the same grid and
  the same two logs as it would have without the failed call. (The log of user events is
  not part of the claim; it does record the failed message.)
\<close>

theorem failed_call_changes_nothing:
  assumes "fst (processUserMessage msg uid sid store) = Inl err"
  shows "spreadsheetState (snd (processUserMessage msg uid sid store)) = spreadsheetState store \<and>
         actionEvents (snd (processUserMessage msg uid sid store)) = actionEvents store \<and>
         stateEvents (snd (processUserMessage msg uid sid store)) = stateEvents store \<and>
         fst (processUserMessage msg2 uid2 sid2 (snd (processUserMessage msg uid sid store)))
           = fst (processUserMessage msg2 uid2 sid2 store) \<and>
         spreadsheetState (snd (processUserMessage msg2 uid2 sid2 (snd (processUserMessage msg uid sid store))))
           = spreadsheetState (snd (processUserMessage msg2 uid2 sid2 store)) \<and>
         actionEvents (snd (processUserMessage msg2 uid2 sid2 (snd (processUserMessage msg uid sid store))))
           = actionEvents (snd (processUserMessage msg2 uid2 sid2 store)) \<and>
         stateEvents (snd (processUserMessage msg2 uid2 sid2 (snd (processUserMessage msg uid sid store))))
           = stateEvents (snd (processUserMessage msg2 uid2 sid2 store))"
proof -
  from failure_keeps_store[OF assms] obtain ue where
    s: "snd (processUserMessage msg uid sid store) = store\<lparr>userEvents := userEvents store @ [ue]\<rparr>"
    by blast
  show ?thesis
    unfolding s using userEvents_irrelevant[where msg = msg2 and uid = uid2 and sid = sid2 and store = store
                                           and log = "userEvents store @ [ue]"]
    by simp
qed

theorem failed_call_changes_nothing_witness:
  "spreadsheetState (snd (processUserMessage ''A0 x'' None None initialStore))
     = spreadsheetState initialStore \<and>
   actionEvents (snd (processUserMessage ''A0 x'' None None initialStore))
     = actionEvents initialStore \<and>
   stateEvents (snd (processUserMessage ''A0 x'' None None initialStore))
     = stateEvents initialStore \<and>
   fst (processUserMessage ''A1 y'' None None (snd (processUserMessage ''A0 x'' None None initialStore)))
     = fst (processUserMessage ''A1 y'' None None initialStore)"
proof -
  have h: "fst (processUserMessage ''A0 x'' None None initialStore) = Inl failedToProcess"
    by (simp add: processUserMessage_def parse_A0 Let_def)
  from failed_call_changes_nothing[OF h, of "''A1 y''" None None] show ?thesis by simp
qed

text \<open>
  Claim C9. After any sequence of calls on the store of the module, one more call never
  lowers the row count or the column count, the row count stays within the cap, and the
  list of headers has exactly one entry per column.
\<close>

theorem grid_only_grows_headers_match:
  "rows (spreadsheetState (runMessages calls initialStore))
     \<le> rows (spreadsheetState (snd (processUserMessage msg uid sid (runMessages calls initialStore)))) \<and>
   columns (spreadsheetState (runMessages calls initialStore))
     \<le> columns (spreadsheetState (snd (processUserMessage msg uid sid (runMessages calls initialStore)))) \<and>
   rows (spreadsheetState (snd (processUserMessage msg uid sid (runMessages calls initialStore))))
     \<le> MAX_ROWS \<and>
   int (length (headers (spreadsheetState
          (snd (processUserMessage msg uid sid (runMessages calls initialStore))))))
     = columns (spreadsheetState (snd (processUserMessage msg uid sid (runMessages calls initialStore))))"
  using processUserMessage_grows[of "runMessages calls initialStore" msg uid sid]
        reachable_shape[of calls]
  by (simp add: gridOk_def)

text \<open>
  Claim C10. On the store after any sequence of calls, a single-cell command on a row
  beyond the cap of 100 succeeds. The row count is 100 afterwards. The cell is upserted at
  its full row index, the row of the command less one: the cell found at that coordinate
  has the value of the command and the default format, the list of cells is one longer
  when the coordinate had no cell before and as long as before when it had one, and the
  cell at every other coordinate is the one that was there. So the list holds an entry
  whose row index is not below the row count. The numbers of the command are taken within
  the limits of the runtime, where the integers of this development are its numbers: the
  row at most \<^const>\<open>MAX_SAFE_INTEGER\<close> and the column below \<^const>\<open>MAX_ARRAY_LENGTH\<close>.
\<close>

theorem row_beyond_cap_is_stored:
  assumes "parseCommand msg (spreadsheetState (runMessages calls initialStore)) = Inr cmd"
    and "ctype cmd = SINGLE"
    and "100 < the (cmdRow cmd)"
    and "the (cmdRow cmd) \<le> MAX_SAFE_INTEGER"
    and "the (cmdCol cmd) < MAX_ARRAY_LENGTH"
  shows "(\<exists>res. fst (processUserMessage msg uid sid (runMessages calls initialStore)) = Inr res) \<and>
         rows (spreadsheetState (snd (processUserMessage msg uid sid (runMessages calls initialStore))))
           = 100 \<and>
         cellAt (the (cmdRow cmd) - 1) (the (cmdCol cmd))
            (cells (spreadsheetState
               (snd (processUserMessage msg uid sid (runMessages calls initialStore)))))
           = Some \<lparr>row = the (cmdRow cmd) - 1, col = the (cmdCol cmd), cvalue = cmdValue cmd,
                   format = \<lparr>bold = False, italic = False, color = ''#000000'',
                              backgroundColor = ''#ffffff''\<rparr>\<rparr> \<and>
         length (cells (spreadsheetState
                   (snd (processUserMessage msg uid sid (runMessages calls initialStore)))))
           = (if cellAt (the (cmdRow cmd) - 1) (the (cmdCol cmd))
                   (cells (spreadsheetState (runMessages calls initialStore))) = None
              then length (cells (spreadsheetState (runMessages calls initialStore))) + 1
              else length (cells (spreadsheetState (runMessages calls initialStore)))) \<and>
         (\<forall>r' c'. r' \<noteq> the (cmdRow cmd) - 1 \<or> c' \<noteq> the (cmdCol cmd) \<longrightarrow>
            cellAt r' c' (cells (spreadsheetState
                 (snd (processUserMessage msg uid sid (runMessages calls initialStore)))))
              = cellAt r' c' (cells (spreadsheetState (runMessages calls initialStore)))) \<and>
         (\<exists>x \<in> set (cells (spreadsheetState
                  (snd (processUserMessage msg uid sid (runMessages calls initialStore))))).
             row x = the (cmdRow cmd) - 1 \<and> col x = the (cmdCol cmd) \<and> cvalue x = cmdValue cmd \<and>
             rows (spreadsheetState
                    (snd (processUserMessage msg uid sid (runMessages calls initialStore))))
               \<le> row x)"
proof -
  let ?store = "runMessages calls initialStore"
  let ?g = "spreadsheetState ?store"
  let ?out = "spreadsheetState (snd (processUserMessage msg uid sid ?store))"
  from parse_single_fields[OF assms(1,2)] obtain r c where
    r: "cmdRow cmd = Some r" and c: "cmdCol cmd = Some c" by blast
  from assms(3) r have big: "100 < r" by simp
  from reachable_shape[of calls] have cap: "rows ?g \<le> 100"
    by (simp add: gridOk_def MAX_ROWS_def)
  let ?e = "newCell (r - 1) c (cmdValue cmd)"
  from single_write[OF assms(1,2) r c, of uid sid]
  have ok: "\<exists>res. fst (processUserMessage msg uid sid ?store) = Inr res"
    and g': "?out = upsertCell ?e (expandGrid r c ?g)" by simp_all
  have rc: "row ?e = r - 1" "col ?e = c" by (simp_all add: newCell_def)
  have rw: "rows ?out = 100"
    using big cap by (simp add: g' expandGrid_rows MAX_ROWS_def)
  have ce: "cellAt (r - 1) c (cells ?out) = Some ?e"
    using cellAt_upsert_same[of ?e "cells ?g"] by (simp add: g' cells_upsertCell rc)
  have len: "length (cells ?out)
               = (if cellAt (r - 1) c (cells ?g) = None then length (cells ?g) + 1
                  else length (cells ?g))"
    by (simp add: g' length_cells_upsertCell rc)
  have frame: "\<forall>r' c'. r' \<noteq> r - 1 \<or> c' \<noteq> c \<longrightarrow> cellAt r' c' (cells ?out) = cellAt r' c' (cells ?g)"
  proof (intro allI impI)
    fix r' c' :: int
    assume "r' \<noteq> r - 1 \<or> c' \<noteq> c"
    then have "r' \<noteq> row ?e \<or> c' \<noteq> col ?e" by (simp add: rc)
    from cellAt_upsert_other[OF this, of "cells ?g"]
    show "cellAt r' c' (cells ?out) = cellAt r' c' (cells ?g)"
      by (simp add: g' cells_upsertCell)
  qed
  from cellAt_mem[OF ce] have m: "?e \<in> set (cells ?out)" by simp
  have mem: "\<exists>x \<in> set (cells ?out).
               row x = r - 1 \<and> col x = c \<and> cvalue x = cmdValue cmd \<and> rows ?out \<le> row x"
    using m big by (intro bexI[of _ ?e]) (simp_all add: newCell_def rw)
  show ?thesis
    unfolding r c option.sel
    using ok rw ce len frame mem by (simp only: newCell_literal simp_thms)
qed

theorem row_beyond_cap_is_stored_witness:
  "rows (spreadsheetState (snd (processUserMessage ''A200 new'' None None
           (runMessages [(''A200 old'', None, None)] initialStore)))) = 100 \<and>
   cellAt 199 0 (cells (spreadsheetState (snd (processUserMessage ''A200 new'' None None
           (runMessages [(''A200 old'', None, None)] initialStore)))))
     = Some \<lparr>row = 199, col = 0, cvalue = ''new'',
             format = \<lparr>bold = False, italic = False, color = ''#000000'',
                        backgroundColor = ''#ffffff''\<rparr>\<rparr>"
proof -
  let ?cmd = "(blankCommand SINGLE ''new'' ''A200 new'')
                \<lparr>cell := Some ''A200'', cmdCol := Some 0, cmdRow := Some 200\<rparr>"
  have h1: "parseCommand ''A200 new''
              (spreadsheetState (runMessages [(''A200 old'', None, None)] initialStore)) = Inr ?cmd"
    by (rule parse_A200_new)
  have h2: "ctype ?cmd = SINGLE" by (simp add: blankCommand_def)
  have h3: "100 < the (cmdRow ?cmd)" by (simp add: blankCommand_def)
  have h4: "the (cmdRow ?cmd) \<le> MAX_SAFE_INTEGER" by (simp add: blankCommand_def MAX_SAFE_INTEGER_def)
  have h5: "the (cmdCol ?cmd) < MAX_ARRAY_LENGTH" by (simp add: blankCommand_def MAX_ARRAY_LENGTH_def)
  have v: "the (cmdRow ?cmd) - 1 = 199" "the (cmdCol ?cmd) = 0" "cmdValue ?cmd = ''new''"
    by (simp_all add: blankCommand_def)
  from row_beyond_cap_is_stored[OF h1 h2 h3 h4 h5, of None None] show ?thesis
    unfolding v by blast
qed

end
